theory Spec2Isabelle
  imports Complex_Main
begin

section \<open>Bubble Pop: shallow embedding\<close>

text \<open>
  Conventions of the embedding.
  \<^item> A JavaScript \<open>number\<close> that carries a coordinate, a time or a persisted level is a
    \<open>real\<close>: the arithmetic of the source is read over the real numbers (rounding of
    IEEE doubles, \<open>NaN\<close> and the infinities are not part of the model, except where the
    source tests \<open>Number.isFinite\<close>, see \<open>StoredCheckpoint\<close>).
  \<^item> Scores and lives only ever hold integers (sums of 10, 50, 0 and table targets) and
    are \<open>int\<close>; the level index is a non-negative integer and is \<open>nat\<close>.
  \<^item> \<open>Date.now()\<close> and \<open>performance.now()\<close> are the parameter \<open>now\<close> of the
    function that reads the clock; \<open>Math.random()\<close> reads the next element of a
    stream \<open>rnd\<close>, the position in the stream being part of the state.
  \<^item> A \<open>try/catch\<close> of the source is a branch of the model: the thrown cases are
    constructors of the data read.
\<close>

subsection \<open>types.ts\<close>

datatype GameMode = GameMode_LEVELS | GameMode_INFINITE

datatype BubbleType = NORMAL | RARE | BOMB | HEART

datatype GameStatus = MENU | PLAYING | GAME_OVER | PAUSED

record Point =
  pt_x :: real
  pt_y :: real

subsection \<open>services/storageService.ts\<close>

text \<open>
  What \<open>localStorage.getItem(key)\<close> returns is \<open>None\<close> for \<open>null\<close> (no record) or
  \<open>Some t\<close>. The text \<open>t\<close> is modelled by what the source can observe of it:
  \<^item> \<open>EmptyText\<close>: the empty string, which is falsy;
  \<^item> \<open>Malformed\<close>: a non-empty text that is not a JSON object: \<open>JSON.parse\<close> throws,
    or it yields \<open>null\<close> or a primitive, on which the property access of the source
    throws or finds nothing;
  \<^item> \<open>Parsed d\<close>: a text that \<open>JSON.parse\<close> turns into the object \<open>d\<close>.
  \<open>localStorage.setItem(key, JSON.stringify(d))\<close> stores \<open>Parsed d\<close>: reading back
  what was written yields the object written. A text that parses to an array, and a
  score that is not a number, are not modelled; \<open>setItem\<close> is taken not to throw.
\<close>

datatype 'a stored_text = EmptyText | Malformed | Parsed 'a

text \<open>The object under \<open>SCORE_STORAGE_KEY\<close>: one optional number per game mode.\<close>

type_synonym Scores = "GameMode \<Rightarrow> real option"

record CheckpointPayload =
  version :: real
  highestUnlockedLevel :: real
  savedAt :: real

text \<open>
  The object under \<open>LEVEL_CHECKPOINT_KEY\<close> as \<open>loadCheckpoint\<close> sees it.
  \<open>stored_level\<close> is \<open>Some v\<close> when \<open>Math.floor(data.highestUnlockedLevel)\<close> is a
  finite number, \<open>v\<close> being the value of the property, and \<open>None\<close> when it is not
  (\<open>Number.isFinite\<close> fails: the property is absent or not numeric, or the literal
  overflows).
\<close>

record StoredCheckpoint =
  stored_version :: real
  stored_level :: "real option"
  stored_savedAt :: real

record LocalStorage =
  scores_item :: "Scores stored_text option"
  checkpoint_item :: "StoredCheckpoint stored_text option"

definition getHighScore :: "GameMode \<Rightarrow> LocalStorage \<Rightarrow> real" where
  "getHighScore mode ls =
     (case scores_item ls of
        None \<Rightarrow> 0
      | Some EmptyText \<Rightarrow> 0
      | Some Malformed \<Rightarrow> 0
      | Some (Parsed scores) \<Rightarrow>
          (case scores mode of
             None \<Rightarrow> 0
           | Some v \<Rightarrow> if v = 0 then 0 else v))"

text \<open>
  \<open>saveHighScore\<close> returns the flag and the storage after the call. On a malformed
  text the second \<open>JSON.parse\<close> throws inside the \<open>try\<close>; the \<open>catch\<close> logs and the
  function returns \<open>false\<close>.
\<close>

definition saveHighScore :: "GameMode \<Rightarrow> real \<Rightarrow> LocalStorage \<Rightarrow> bool \<times> LocalStorage" where
  "saveHighScore mode sc ls =
     (let currentHigh = getHighScore mode ls in
      if sc > currentHigh then
        (case scores_item ls of
           None \<Rightarrow> (True, ls\<lparr>scores_item := Some (Parsed (Map.empty(mode \<mapsto> sc)))\<rparr>)
         | Some EmptyText \<Rightarrow> (True, ls\<lparr>scores_item := Some (Parsed (Map.empty(mode \<mapsto> sc)))\<rparr>)
         | Some Malformed \<Rightarrow> (False, ls)
         | Some (Parsed scores) \<Rightarrow> (True, ls\<lparr>scores_item := Some (Parsed (scores(mode \<mapsto> sc)))\<rparr>))
      else (False, ls))"

definition makeCheckpointPayload :: "real \<Rightarrow> real \<Rightarrow> CheckpointPayload" where
  "makeCheckpointPayload lvl now =
     \<lparr>version = 2, highestUnlockedLevel = max 1 (of_int \<lfloor>lvl\<rfloor>), savedAt = now\<rparr>"

definition defaultCheckpoint :: CheckpointPayload where
  "defaultCheckpoint = \<lparr>version = 2, highestUnlockedLevel = 1, savedAt = 0\<rparr>"

definition removeCheckpoint :: "LocalStorage \<Rightarrow> LocalStorage" where
  "removeCheckpoint ls = ls\<lparr>checkpoint_item := None\<rparr>"

text \<open>\<open>loadCheckpoint\<close> returns the payload and the storage after the call.\<close>

definition loadCheckpoint :: "LocalStorage \<Rightarrow> CheckpointPayload \<times> LocalStorage" where
  "loadCheckpoint ls =
     (case checkpoint_item ls of
        None \<Rightarrow> (defaultCheckpoint, ls)
      | Some EmptyText \<Rightarrow> (defaultCheckpoint, ls)
      | Some Malformed \<Rightarrow> (defaultCheckpoint, removeCheckpoint ls)
      | Some (Parsed d) \<Rightarrow>
          (case stored_level d of
             None \<Rightarrow> (defaultCheckpoint, removeCheckpoint ls)
           | Some v \<Rightarrow>
               if of_int \<lfloor>v\<rfloor> < (1::real) then (defaultCheckpoint, removeCheckpoint ls)
               else (\<lparr>version = stored_version d, highestUnlockedLevel = v,
                      savedAt = stored_savedAt d\<rparr>, ls)))"

definition storeCheckpoint :: "CheckpointPayload \<Rightarrow> LocalStorage \<Rightarrow> LocalStorage" where
  "storeCheckpoint p ls =
     ls\<lparr>checkpoint_item :=
          Some (Parsed \<lparr>stored_version = version p,
                        stored_level = Some (highestUnlockedLevel p),
                        stored_savedAt = savedAt p\<rparr>)\<rparr>"

definition saveUnlockedLevelIfHigher :: "real \<Rightarrow> real \<Rightarrow> LocalStorage \<Rightarrow> LocalStorage" where
  "saveUnlockedLevelIfHigher levelJustCleared now ls =
     (let nextUnlocked = max 1 (of_int \<lfloor>levelJustCleared\<rfloor> + 1);
          (cp, ls1) = loadCheckpoint ls;
          prev = (if highestUnlockedLevel cp = 0 then 1 else highestUnlockedLevel cp)
      in if nextUnlocked \<le> prev then ls1
         else storeCheckpoint (makeCheckpointPayload nextUnlocked now) ls1)"

definition getResumeLevel :: "LocalStorage \<Rightarrow> real \<times> LocalStorage" where
  "getResumeLevel ls =
     (let (cp, ls1) = loadCheckpoint ls
      in (max 1 (if highestUnlockedLevel cp = 0 then 1 else highestUnlockedLevel cp), ls1))"

definition clearCheckpoint :: "LocalStorage \<Rightarrow> LocalStorage" where
  "clearCheckpoint ls = removeCheckpoint ls"

text \<open>
  A run of calls to \<open>saveUnlockedLevelIfHigher\<close>, each with its argument and the clock
  reading of the call, and the level a load reports for a storage.
\<close>

fun saveUnlockedLevelIfHigher_calls :: "(real \<times> real) list \<Rightarrow> LocalStorage \<Rightarrow> LocalStorage" where
  "saveUnlockedLevelIfHigher_calls [] ls = ls"
| "saveUnlockedLevelIfHigher_calls ((lvl, now) # cs) ls =
     saveUnlockedLevelIfHigher_calls cs (saveUnlockedLevelIfHigher lvl now ls)"

definition persistedLevel :: "LocalStorage \<Rightarrow> real" where
  "persistedLevel ls = highestUnlockedLevel (fst (loadCheckpoint ls))"

subsection \<open>constants.ts\<close>

definition CAMERA_MIRRORED :: bool where
  "CAMERA_MIRRORED = True"

fun SCORING :: "BubbleType \<Rightarrow> int" where
  "SCORING NORMAL = 10"
| "SCORING RARE = 50"
| "SCORING BOMB = 0"
| "SCORING HEART = 0"

text \<open>
  Of a level definition only \<open>target\<close> is read by the functions modelled here;
  \<open>speedMod\<close>, \<open>spawnMod\<close> and \<open>bombChance\<close> (rounded floating-point values used by
  \<open>spawnBubble\<close>) are left out.
\<close>

record LevelDefinition =
  target :: int

definition levelTarget :: "int \<Rightarrow> int" where
  "levelTarget i =
     (if i = 1 then 150
      else if i = 2 then 350
      else if i = 3 then 600
      else if i = 4 then 900
      else if i = 5 then 1250
      else if i \<le> 20 then 1250 + (i - 5) * 200
      else if i \<le> 50 then 4250 + (i - 20) * 300
      else 13250 + (i - 50) * 400)"

definition generateLevels :: "LevelDefinition list" where
  "generateLevels = map (\<lambda>i. \<lparr>target = levelTarget i\<rparr>) [1..100]"

definition LEVELS :: "LevelDefinition list" where
  "LEVELS = generateLevels"

subsection \<open>components/GameCanvas.tsx: distances\<close>

text \<open>
  \<open>hypot\<close> is \<open>Math.hypot\<close> of two arguments, and \<open>pointDist\<close> the distance of two
  points. The class \<open>OneEuroFilter\<close> is not embedded: what it returns for a held input
  is decided by the rounding of its IEEE double arithmetic, which the reals do not have.
\<close>

definition hypot :: "real \<Rightarrow> real \<Rightarrow> real" where
  "hypot a b = sqrt (a\<^sup>2 + b\<^sup>2)"

definition pointDist :: "Point \<Rightarrow> Point \<Rightarrow> real" where
  "pointDist p q = hypot (pt_x p - pt_x q) (pt_y p - pt_y q)"

subsection \<open>components/GameCanvas.tsx: input mapping\<close>

record CoverRect =
  drawW :: real
  drawH :: real
  offsetX :: real
  offsetY :: real

definition getCoverRect :: "real \<Rightarrow> real \<Rightarrow> real \<Rightarrow> real \<Rightarrow> CoverRect" where
  "getCoverRect videoW videoH stageW stageH =
     (let videoAR = videoW / videoH;
          stageAR = stageW / stageH
      in if videoAR > stageAR
         then \<lparr>drawW = stageH * videoAR, drawH = stageH,
               offsetX = (stageW - stageH * videoAR) / 2, offsetY = 0\<rparr>
         else \<lparr>drawW = stageW, drawH = stageW / videoAR,
               offsetX = 0, offsetY = (stageH - stageW / videoAR) / 2\<rparr>)"

record VideoElement =
  videoWidth :: real
  videoHeight :: real

record StageDimensions =
  width :: real
  height :: real

text \<open>
  \<open>coverScale\<close> is the local \<open>scale\<close> of \<open>mapLandmarkToStage\<close>.
  \<open>mapLandmarkToStage_with\<close> is \<open>mapLandmarkToStage\<close> with the mirroring flag as an
  argument; the source reads the constant \<open>CAMERA_MIRRORED\<close> there. \<open>video\<close> is
  \<open>videoRef.current\<close>, \<open>None\<close> for \<open>null\<close>.
\<close>

definition coverScale :: "real \<Rightarrow> real \<Rightarrow> real \<Rightarrow> real \<Rightarrow> real" where
  "coverScale vw vh stageW stageH = drawW (getCoverRect vw vh stageW stageH) / vw"

definition mapLandmarkToStage_with ::
  "bool \<Rightarrow> VideoElement option \<Rightarrow> StageDimensions \<Rightarrow> real \<Rightarrow> real \<Rightarrow> Point option" where
  "mapLandmarkToStage_with mirrored video stage normX normY =
     (case video of
        None \<Rightarrow> None
      | Some v \<Rightarrow>
          if videoWidth v = 0 \<or> videoHeight v = 0 \<or> width stage = 0 \<or> height stage = 0
          then None
          else
            (let vw = videoWidth v;
                 vh = videoHeight v;
                 xN = (if mirrored then 1 - normX else normX);
                 yN = normY;
                 xV = xN * vw;
                 yV = yN * vh;
                 c = getCoverRect vw vh (width stage) (height stage);
                 scale = coverScale vw vh (width stage) (height stage)
             in Some \<lparr>pt_x = offsetX c + xV * scale, pt_y = offsetY c + yV * scale\<rparr>))"

definition mapLandmarkToStage ::
  "VideoElement option \<Rightarrow> StageDimensions \<Rightarrow> real \<Rightarrow> real \<Rightarrow> Point option" where
  "mapLandmarkToStage = mapLandmarkToStage_with CAMERA_MIRRORED"

definition clampToStage :: "Point \<Rightarrow> real \<Rightarrow> real \<Rightarrow> real \<Rightarrow> Point" where
  "clampToStage p w h margin =
     \<lparr>pt_x = max margin (min (w - margin) (pt_x p)),
      pt_y = max margin (min (h - margin) (pt_y p))\<rparr>"

subsection \<open>components/GameCanvas.tsx: session state\<close>

datatype error = TypeError

text \<open>
  \<open>getStartingScore\<close>: reading \<open>LEVELS[lvlIndex - 1]\<close> past the end of the table yields
  \<open>undefined\<close>, and \<open>.target\<close> of it throws.
\<close>

definition getStartingScore :: "GameMode \<Rightarrow> nat \<Rightarrow> error + int" where
  "getStartingScore mode lvlIndex =
     (if mode = GameMode_INFINITE \<or> lvlIndex \<le> 0 then Inr 0
      else if lvlIndex - 1 < length LEVELS then Inr (target (LEVELS ! (lvlIndex - 1)))
      else Inl TypeError)"

definition startLvlIndex :: "int \<Rightarrow> nat" where
  "startLvlIndex initialLevel = nat (max 0 (initialLevel - 1))"

record BubbleEntity =
  bubble_id :: string
  bubble_x :: real
  bubble_y :: real
  radius :: real
  speed :: real
  wobbleOffset :: real
  btype :: BubbleType
  opacity :: real
  isPopped :: bool

text \<open>\<open>p_id\<close> is the random number whose decimal text is the particle's id.\<close>

record Particle =
  p_id :: real
  p_x :: real
  p_y :: real
  vx :: real
  vy :: real
  life :: real
  color :: string
  p_size :: real

datatype InputType = MOUSE | CAMERA

text \<open>
  \<open>GameState\<close> is the object \<open>gameState.current\<close>. Bubbles are objects shared between
  the array and the callbacks that mutate them: \<open>bubbles\<close> holds references, and the
  objects live in the \<open>heap\<close> of the session.
\<close>

record GameState =
  status :: GameStatus
  score :: int
  lives :: int
  levelIndex :: nat
  levelScoreStart :: int
  lastSpawnTime :: real
  bubbles :: "nat list"
  particles :: "Particle list"
  inputType :: InputType
  fingerPos :: Point
  lastStablePos :: Point
  lastHandTime :: real
  screenShake :: real
  message :: string
  messageTimer :: int

definition initialGameState :: "GameMode \<Rightarrow> int \<Rightarrow> error + GameState" where
  "initialGameState mode initialLevel =
     (case getStartingScore mode (startLvlIndex initialLevel) of
        Inl e \<Rightarrow> Inl e
      | Inr start \<Rightarrow>
          Inr \<lparr>status = PLAYING,
               score = start,
               lives = (if mode = GameMode_LEVELS then 3 else 1),
               levelIndex = startLvlIndex initialLevel,
               levelScoreStart = start,
               lastSpawnTime = 0,
               bubbles = [],
               particles = [],
               inputType = MOUSE,
               fingerPos = \<lparr>pt_x = -100, pt_y = -100\<rparr>,
               lastStablePos = \<lparr>pt_x = -100, pt_y = -100\<rparr>,
               lastHandTime = 0,
               screenShake = 0,
               message = [],
               messageTimer = 0\<rparr>)"

datatype Sound = PlayBomb | PlayRarePop | PlayHeart | PlayPop

text \<open>
  A \<open>Session\<close> is the game state with what the component's callbacks read and write
  besides: the bubble objects, the React state set by \<open>setScore\<close>, \<open>setLives\<close>,
  \<open>setLevel\<close>, \<open>setFeedbackMessage\<close> and \<open>setToastMessage\<close>, the calls made to the
  audio service and to \<open>onGameOver\<close> (in order), the local storage, and the number of
  \<open>Math.random()\<close> calls so far. The timer that clears the toast after 1500 ms is not
  modelled.
\<close>

record Session = GameState +
  heap :: "nat \<Rightarrow> BubbleEntity"
  ui_score :: int
  ui_lives :: int
  ui_level :: int
  feedbackMessage :: string
  toastMessage :: "string option"
  sounds :: "Sound list"
  gameOverReports :: "int list"
  storage :: LocalStorage
  rngCalls :: nat

text \<open>
  The session when the component mounts: the game state, the React state initialised
  from it and from the props, the bubble objects \<open>h\<close> and the local storage \<open>ls\<close> found.
\<close>

definition mountGameCanvas ::
  "GameMode \<Rightarrow> int \<Rightarrow> (nat \<Rightarrow> BubbleEntity) \<Rightarrow> LocalStorage \<Rightarrow> error + Session" where
  "mountGameCanvas mode initialLevel h ls =
     (case initialGameState mode initialLevel of
        Inl e \<Rightarrow> Inl e
      | Inr g \<Rightarrow>
          Inr \<lparr>status = status g, score = score g, lives = lives g,
               levelIndex = levelIndex g, levelScoreStart = levelScoreStart g,
               lastSpawnTime = lastSpawnTime g, bubbles = bubbles g,
               particles = particles g, inputType = inputType g,
               fingerPos = fingerPos g, lastStablePos = lastStablePos g,
               lastHandTime = lastHandTime g, screenShake = screenShake g,
               message = message g, messageTimer = messageTimer g,
               heap = h,
               ui_score = score g,
               ui_lives = (if mode = GameMode_LEVELS then 3 else 1),
               ui_level = initialLevel,
               feedbackMessage = [], toastMessage = None,
               sounds = [], gameOverReports = [],
               storage = ls, rngCalls = 0\<rparr>)"

text \<open>\<open>applyDeadzone\<close> reads and writes \<open>gameState.current\<close> only.\<close>

definition applyDeadzone :: "Point \<Rightarrow> 'a GameState_scheme \<Rightarrow> Point \<times> 'a GameState_scheme" where
  "applyDeadzone newPos s =
     (if pt_x (lastStablePos s) = -100 then (newPos, s\<lparr>lastStablePos := newPos\<rparr>)
      else
        (let dx = pt_x newPos - pt_x (lastStablePos s);
             dy = pt_y newPos - pt_y (lastStablePos s)
         in if hypot dx dy < 2.0 then (lastStablePos s, s)
            else (newPos, s\<lparr>lastStablePos := newPos\<rparr>)))"

definition particleColor :: "BubbleType \<Rightarrow> string" where
  "particleColor t =
     (let c0 = ''rgba(200, 240, 255, 0.8)'';
          c1 = (if t = BOMB then ''rgba(255, 50, 50, 0.8)'' else c0);
          c2 = (if t = RARE then ''rgba(255, 215, 0, 0.8)'' else c1)
      in if t = HEART then ''rgba(255, 180, 200, 0.8)'' else c2)"

text \<open>
  One round of the loop of \<open>createParticles\<close> draws four random numbers: the angle,
  the speed, the id and the size, in this order.
\<close>

fun createParticles :: "(nat \<Rightarrow> real) \<Rightarrow> real \<Rightarrow> real \<Rightarrow> BubbleType \<Rightarrow> nat \<Rightarrow> Session \<Rightarrow> Session" where
  "createParticles rnd x y t 0 s = s"
| "createParticles rnd x y t (Suc n) s =
     (let k = rngCalls s;
          angle = rnd k * pi * 2;
          spd = rnd (k + 1) * 6 + 2;
          p = \<lparr>p_id = rnd (k + 2), p_x = x, p_y = y,
               vx = cos angle * spd, vy = sin angle * spd,
               life = 1.0, color = particleColor t, p_size = rnd (k + 3) * 3 + 1\<rparr>
      in createParticles rnd x y t n
           (s\<lparr>particles := particles s @ [p], rngCalls := k + 4\<rparr>))"

definition showMessage :: "string \<Rightarrow> Session \<Rightarrow> Session" where
  "showMessage msg s = s\<lparr>message := msg, messageTimer := 120, feedbackMessage := msg\<rparr>"

definition showToast :: "string \<Rightarrow> Session \<Rightarrow> Session" where
  "showToast msg s = s\<lparr>toastMessage := Some msg\<rparr>"

definition restartLevel :: "Session \<Rightarrow> Session" where
  "restartLevel s =
     (let s1 = showMessage ''Level Failed! Restarting...'' s;
          s2 = s1\<lparr>screenShake := 30, bubbles := [], particles := [], lives := 3\<rparr>;
          s3 = s2\<lparr>score := levelScoreStart s2\<rparr>
      in s3\<lparr>ui_lives := 3, ui_score := score s3\<rparr>)"

definition endGame :: "Session \<Rightarrow> Session" where
  "endGame s = s\<lparr>status := GAME_OVER, gameOverReports := gameOverReports s @ [score s]\<rparr>"

definition popSound :: "BubbleType \<Rightarrow> Sound" where
  "popSound t =
     (if t = BOMB then PlayBomb
      else if t = RARE then PlayRarePop
      else if t = HEART then PlayHeart
      else PlayPop)"

text \<open>The decimal text that a template literal gives for a non-negative integer.\<close>

definition digitChar :: "nat \<Rightarrow> char" where
  "digitChar d = ''0123456789'' ! d"

function numberToString :: "nat \<Rightarrow> string" where
  "numberToString n =
     (if n div 10 = 0 then [digitChar n]
      else numberToString (n div 10) @ [digitChar (n mod 10)])"
  by pat_completeness auto
termination
  by (relation "measure id") auto

declare numberToString.simps [simp del]

text \<open>
  The level-clear part of \<open>handlePop\<close> (level mode only). \<open>now\<close> is the clock that
  \<open>makeCheckpointPayload\<close> reads through \<open>saveUnlockedLevelIfHigher\<close>.
\<close>

definition currentLevelConfig :: "Session \<Rightarrow> LevelDefinition" where
  "currentLevelConfig s = LEVELS ! (min (levelIndex s) (length LEVELS - 1))"

definition burstBubbles :: "(nat \<Rightarrow> real) \<Rightarrow> Session \<Rightarrow> Session" where
  "burstBubbles rnd s =
     fold (\<lambda>r s'. createParticles rnd (bubble_x (heap s' r)) (bubble_y (heap s' r))
                     (btype (heap s' r)) 5 s')
          (bubbles s) s"

definition levelClearCheck :: "(nat \<Rightarrow> real) \<Rightarrow> real \<Rightarrow> Session \<Rightarrow> Session" where
  "levelClearCheck rnd now s =
     (if score s \<ge> target (currentLevelConfig s) then
        (let completedLevel = levelIndex s + 1;
             s1 = s\<lparr>storage := saveUnlockedLevelIfHigher (real completedLevel) now (storage s)\<rparr>;
             unlockedLevel = completedLevel + 1;
             s2 = s1\<lparr>levelIndex := levelIndex s1 + 1\<rparr>;
             s3 = s2\<lparr>levelScoreStart := score s2\<rparr>;
             nextLevel = levelIndex s3 + 1;
             s4 = s3\<lparr>ui_level := int nextLevel\<rparr>;
             s5 = showToast (''Checkpoint: Level '' @ numberToString unlockedLevel @ '' unlocked'') s4;
             s6 = showMessage (''Level '' @ numberToString nextLevel @ ''!'') s5;
             s7 = s6\<lparr>sounds := sounds s6 @ [PlayHeart]\<rparr>;
             s8 = burstBubbles rnd s7
         in s8\<lparr>bubbles := []\<rparr>)
      else s)"

text \<open>\<open>handlePop\<close> is called with a reference to the bubble object.\<close>

definition handlePop :: "GameMode \<Rightarrow> (nat \<Rightarrow> real) \<Rightarrow> real \<Rightarrow> nat \<Rightarrow> Session \<Rightarrow> Session" where
  "handlePop mode rnd now r s =
     (let s1 = s\<lparr>heap := (heap s)(r := (heap s r)\<lparr>isPopped := True\<rparr>)\<rparr>;
          bubble = heap s1 r;
          s2 = s1\<lparr>sounds := sounds s1 @ [popSound (btype bubble)]\<rparr>;
          s3 =
            (if btype bubble = BOMB then
               (let a1 = s2\<lparr>screenShake := 25\<rparr>;
                    a2 = createParticles rnd (bubble_x bubble) (bubble_y bubble) BOMB 30 a1
                in if mode = GameMode_INFINITE then endGame a2
                   else
                     (let a3 = a2\<lparr>lives := lives a2 - 1\<rparr>;
                          a4 = a3\<lparr>ui_lives := lives a3\<rparr>
                      in if lives a4 \<le> 0 then restartLevel a4 else a4))
             else
               (let points = SCORING (btype bubble);
                    b1 = s2\<lparr>score := score s2 + points\<rparr>;
                    b2 = createParticles rnd (bubble_x bubble) (bubble_y bubble) (btype bubble) 15 b1
                in if btype bubble = HEART then
                     (if lives b2 < 3 then
                        (let b3 = b2\<lparr>lives := lives b2 + 1\<rparr> in b3\<lparr>ui_lives := lives b3\<rparr>)
                      else b2)
                   else b2));
          s4 = s3\<lparr>ui_score := score s3\<rparr>
      in if mode = GameMode_LEVELS then levelClearCheck rnd now s4 else s4)"

text \<open>
  The bubble pass of \<open>gameLoop\<close>: \<open>state.bubbles.forEach\<close> walks the array that
  \<open>state.bubbles\<close> holds when the pass starts, also after \<open>handlePop\<close> has put a new
  array in its place. \<open>gameLoop_forEach\<close> returns, beside the session, the references
  on which it called \<open>handlePop\<close>, in order. All the calls of one pass read the same
  clock value \<open>now\<close>.
\<close>

fun gameLoop_forEach ::
  "GameMode \<Rightarrow> (nat \<Rightarrow> real) \<Rightarrow> real \<Rightarrow> nat list \<Rightarrow> Session \<Rightarrow> Session \<times> nat list" where
  "gameLoop_forEach mode rnd now [] s = (s, [])"
| "gameLoop_forEach mode rnd now (r # rs) s =
     (let b = heap s r;
          s1 = s\<lparr>heap := (heap s)(r := b\<lparr>bubble_y := bubble_y b - speed b\<rparr>)\<rparr>;
          b1 = heap s1 r
      in if \<not> isPopped b1 then
           (let d = hypot (bubble_x b1 - pt_x (fingerPos s1)) (bubble_y b1 - pt_y (fingerPos s1));
                hitRadius = radius b1 * 1.3
            in if d < hitRadius then
                 (let (s2, popped) = gameLoop_forEach mode rnd now rs (handlePop mode rnd now r s1)
                  in (s2, r # popped))
               else gameLoop_forEach mode rnd now rs s1)
         else gameLoop_forEach mode rnd now rs s1)"

definition gameLoop_bubbles ::
  "GameMode \<Rightarrow> (nat \<Rightarrow> real) \<Rightarrow> real \<Rightarrow> Session \<Rightarrow> Session \<times> nat list" where
  "gameLoop_bubbles mode rnd now s =
     (let (s1, popped) = gameLoop_forEach mode rnd now (bubbles s) s
      in (s1\<lparr>bubbles :=
               filter (\<lambda>r. bubble_y (heap s1 r) + radius (heap s1 r) > -100
                           \<and> \<not> isPopped (heap s1 r))
                      (bubbles s1)\<rparr>,
          popped))"

subsection \<open>Notions used to state the properties\<close>

text \<open>
  The stored checkpoint texts that \<open>loadCheckpoint\<close> is said to discard: a text that
  does not parse to an object, an object whose level is not a finite number, and an
  object whose level is below 1.
\<close>

definition discardedCheckpoint :: "StoredCheckpoint stored_text \<Rightarrow> bool" where
  "discardedCheckpoint t =
     (case t of
        EmptyText \<Rightarrow> False
      | Malformed \<Rightarrow> True
      | Parsed d \<Rightarrow> (case stored_level d of None \<Rightarrow> True | Some v \<Rightarrow> v < 1))"

text \<open>
  The particles that \<open>createParticles\<close> appends, written as a list: \<open>k\<close> is the number
  of random draws made before. \<open>burstParticles\<close> is the same for the bursts of a level
  clear, five particles for each bubble of the array.
\<close>

definition mkParticle :: "(nat \<Rightarrow> real) \<Rightarrow> real \<Rightarrow> real \<Rightarrow> BubbleType \<Rightarrow> nat \<Rightarrow> Particle" where
  "mkParticle rnd x y t k =
     \<lparr>p_id = rnd (k + 2), p_x = x, p_y = y,
      vx = cos (rnd k * pi * 2) * (rnd (k + 1) * 6 + 2),
      vy = sin (rnd k * pi * 2) * (rnd (k + 1) * 6 + 2),
      life = 1.0, color = particleColor t, p_size = rnd (k + 3) * 3 + 1\<rparr>"

fun newParticles :: "(nat \<Rightarrow> real) \<Rightarrow> real \<Rightarrow> real \<Rightarrow> BubbleType \<Rightarrow> nat \<Rightarrow> nat \<Rightarrow> Particle list" where
  "newParticles rnd x y t 0 k = []"
| "newParticles rnd x y t (Suc n) k = mkParticle rnd x y t k # newParticles rnd x y t n (k + 4)"

fun burstParticles :: "(nat \<Rightarrow> real) \<Rightarrow> (nat \<Rightarrow> BubbleEntity) \<Rightarrow> nat list \<Rightarrow> nat \<Rightarrow> Particle list" where
  "burstParticles rnd h [] k = []"
| "burstParticles rnd h (r # rs) k =
     newParticles rnd (bubble_x (h r)) (bubble_y (h r)) (btype (h r)) 5 k
       @ burstParticles rnd h rs (k + 20)"

text \<open>
  The two steps of one round of the bubble pass: \<open>moveBubble\<close> is the assignment
  \<open>b.y -= b.speed\<close>, and \<open>hitTest s r\<close> says that the bubble \<open>r\<close> of the session \<open>s\<close>, once
  moved, is not popped and is within its hit radius of the pointer.
\<close>

definition moveBubble :: "nat \<Rightarrow> Session \<Rightarrow> Session" where
  "moveBubble r s =
     s\<lparr>heap := (heap s)(r := (heap s r)\<lparr>bubble_y := bubble_y (heap s r) - speed (heap s r)\<rparr>)\<rparr>"

definition hitTest :: "Session \<Rightarrow> nat \<Rightarrow> bool" where
  "hitTest s r =
     (let b = heap s r
      in \<not> isPopped b
         \<and> hypot (bubble_x b - pt_x (fingerPos s)) (bubble_y b - speed b - pt_y (fingerPos s))
             < radius b * 1.3)"

text \<open>
  Sessions to evaluate the functions on: every reference holds a bubble of type \<open>t\<close>
  two pixels below the pointer, which \<open>moveBubble\<close> brings onto it; the storage is
  empty.
\<close>

definition exampleBubble :: "BubbleType \<Rightarrow> BubbleEntity" where
  "exampleBubble t =
     \<lparr>bubble_id = ''b'', bubble_x = 100, bubble_y = 102, radius = 30, speed = 2,
      wobbleOffset = 0, btype = t, opacity = 1, isPopped = False\<rparr>"

definition exampleSession :: "GameMode \<Rightarrow> int \<Rightarrow> BubbleType \<Rightarrow> nat list \<Rightarrow> Session" where
  "exampleSession mode initialLevel t refs =
     (projr (mountGameCanvas mode initialLevel (\<lambda>r. exampleBubble t)
               \<lparr>scores_item = None, checkpoint_item = None\<rparr>))
       \<lparr>bubbles := refs, fingerPos := \<lparr>pt_x = 100, pt_y = 100\<rparr>\<rparr>"

section \<open>Properties of the storage service\<close>

lemma floor_real_less_one: "(of_int \<lfloor>v::real\<rfloor> < (1::real)) = (v < 1)"
proof -
  have "(of_int \<lfloor>v\<rfloor> < (1::real)) = (\<lfloor>v\<rfloor> < 1)" by simp
  also have "\<dots> = (v < 1)" by (simp add: floor_less_iff)
  finally show ?thesis .
qed

text \<open>
  C8. \<open>saveHighScore\<close> changes the storage only when the new score is strictly above
  the stored one, and returns \<open>true\<close> exactly when it has stored the new score: a
  \<open>true\<close> result means the score was above and is now the stored value, a \<open>false\<close>
  result leaves the storage as it was. On every storage whose score text is not
  malformed the result is \<open>true\<close> exactly when the score is strictly above the stored
  value. A score equal to the stored value returns \<open>false\<close> and changes nothing. Saving
  500 and then 300 in endless mode, on such a storage holding at most 500, leaves 500
  stored, and the second call returns \<open>false\<close>.
\<close>

theorem saveHighScore_only_above:
  "(fst (saveHighScore mode sc ls) \<longrightarrow>
      sc > getHighScore mode ls \<and> getHighScore mode (snd (saveHighScore mode sc ls)) = sc)
   \<and> (\<not> fst (saveHighScore mode sc ls) \<longrightarrow> snd (saveHighScore mode sc ls) = ls)
   \<and> (scores_item ls \<noteq> Some Malformed \<longrightarrow>
        fst (saveHighScore mode sc ls) = (sc > getHighScore mode ls))
   \<and> (sc = getHighScore mode ls \<longrightarrow> saveHighScore mode sc ls = (False, ls))
   \<and> (scores_item ls \<noteq> Some Malformed \<and> getHighScore GameMode_INFINITE ls \<le> 500 \<longrightarrow>
        getHighScore GameMode_INFINITE (snd (saveHighScore GameMode_INFINITE 500 ls)) = 500
        \<and> saveHighScore GameMode_INFINITE 300 (snd (saveHighScore GameMode_INFINITE 500 ls))
            = (False, snd (saveHighScore GameMode_INFINITE 500 ls)))"
  by (auto simp: saveHighScore_def getHighScore_def Let_def
           split: option.splits stored_text.splits if_splits)

theorem saveHighScore_only_above_witness:
  "saveHighScore GameMode_INFINITE 500 \<lparr>scores_item = None, checkpoint_item = None\<rparr>
     = (True, \<lparr>scores_item = Some (Parsed (Map.empty(GameMode_INFINITE \<mapsto> 500))), checkpoint_item = None\<rparr>)
   \<and> saveHighScore GameMode_INFINITE 300
        \<lparr>scores_item = Some (Parsed (Map.empty(GameMode_INFINITE \<mapsto> 500))), checkpoint_item = None\<rparr>
     = (False, \<lparr>scores_item = Some (Parsed (Map.empty(GameMode_INFINITE \<mapsto> 500))), checkpoint_item = None\<rparr>)
   \<and> saveHighScore GameMode_INFINITE 500
        \<lparr>scores_item = Some (Parsed (Map.empty(GameMode_INFINITE \<mapsto> 500))), checkpoint_item = None\<rparr>
     = (False, \<lparr>scores_item = Some (Parsed (Map.empty(GameMode_INFINITE \<mapsto> 500))), checkpoint_item = None\<rparr>)"
proof -
  let ?ls0 = "\<lparr>scores_item = None, checkpoint_item = None\<rparr>"
  let ?ls1 = "\<lparr>scores_item = Some (Parsed (Map.empty(GameMode_INFINITE \<mapsto> 500))), checkpoint_item = None\<rparr>"
  have g0: "getHighScore GameMode_INFINITE ?ls0 = 0" and g1: "getHighScore GameMode_INFINITE ?ls1 = 500"
    by (simp_all add: getHighScore_def)
  have s0: "snd (saveHighScore GameMode_INFINITE 500 ?ls0) = ?ls1"
    by (simp add: saveHighScore_def g0)
  show ?thesis
    using saveHighScore_only_above [of GameMode_INFINITE 500 ?ls0]
      saveHighScore_only_above [of GameMode_INFINITE 300 ?ls1]
      saveHighScore_only_above [of GameMode_INFINITE 500 ?ls1]
    by (simp add: g0 g1 s0 prod_eq_iff)
qed

text \<open>
  C9. \<open>loadCheckpoint\<close> returns the default payload, with highest unlocked level 1,
  when there is no record (or the stored text is empty), and when the stored text is
  unparseable, holds a level that is not a finite number, or holds a level below 1. In
  the last three cases it also removes the record, and a second load yields the
  default again.
\<close>

theorem loadCheckpoint_defaults:
  "(checkpoint_item ls = None \<or> checkpoint_item ls = Some EmptyText \<longrightarrow>
      loadCheckpoint ls = (defaultCheckpoint, ls))
   \<and> (\<forall>t. checkpoint_item ls = Some t \<and> discardedCheckpoint t \<longrightarrow>
          loadCheckpoint ls = (defaultCheckpoint, ls\<lparr>checkpoint_item := None\<rparr>)
          \<and> loadCheckpoint (snd (loadCheckpoint ls))
              = (defaultCheckpoint, ls\<lparr>checkpoint_item := None\<rparr>))
   \<and> highestUnlockedLevel defaultCheckpoint = 1"
  by (auto simp: loadCheckpoint_def discardedCheckpoint_def removeCheckpoint_def
                 defaultCheckpoint_def floor_real_less_one
           split: option.splits stored_text.splits if_splits)

theorem loadCheckpoint_defaults_witness:
  "loadCheckpoint \<lparr>scores_item = None, checkpoint_item = None\<rparr>
     = (\<lparr>version = 2, highestUnlockedLevel = 1, savedAt = 0\<rparr>, \<lparr>scores_item = None, checkpoint_item = None\<rparr>)
   \<and> loadCheckpoint \<lparr>scores_item = None, checkpoint_item = Some Malformed\<rparr>
     = (\<lparr>version = 2, highestUnlockedLevel = 1, savedAt = 0\<rparr>, \<lparr>scores_item = None, checkpoint_item = None\<rparr>)
   \<and> loadCheckpoint \<lparr>scores_item = None,
        checkpoint_item = Some (Parsed \<lparr>stored_version = 2, stored_level = Some (-1), stored_savedAt = 7\<rparr>)\<rparr>
     = (\<lparr>version = 2, highestUnlockedLevel = 1, savedAt = 0\<rparr>, \<lparr>scores_item = None, checkpoint_item = None\<rparr>)
   \<and> loadCheckpoint \<lparr>scores_item = None,
        checkpoint_item = Some (Parsed \<lparr>stored_version = 2, stored_level = None, stored_savedAt = 7\<rparr>)\<rparr>
     = (\<lparr>version = 2, highestUnlockedLevel = 1, savedAt = 0\<rparr>, \<lparr>scores_item = None, checkpoint_item = None\<rparr>)"
  using loadCheckpoint_defaults [of "\<lparr>scores_item = None, checkpoint_item = None\<rparr>"]
    loadCheckpoint_defaults [of "\<lparr>scores_item = None, checkpoint_item = Some Malformed\<rparr>"]
    loadCheckpoint_defaults [of "\<lparr>scores_item = None,
        checkpoint_item = Some (Parsed \<lparr>stored_version = 2, stored_level = Some (-1), stored_savedAt = 7\<rparr>)\<rparr>"]
    loadCheckpoint_defaults [of "\<lparr>scores_item = None,
        checkpoint_item = Some (Parsed \<lparr>stored_version = 2, stored_level = None, stored_savedAt = 7\<rparr>)\<rparr>"]
  by (simp add: discardedCheckpoint_def defaultCheckpoint_def)

lemma nextUnlocked_int:
  "max (1::real) (of_int \<lfloor>lvl::real\<rfloor> + 1) = of_int (max 1 (\<lfloor>lvl\<rfloor> + 1))"
  by (simp add: max_def)

lemma persistedLevel_ge_1: "1 \<le> persistedLevel ls"
proof -
  have "\<And>v::real. \<not> of_int \<lfloor>v\<rfloor> < (1::real) \<Longrightarrow> 1 \<le> v"
    by (simp add: floor_real_less_one)
  then show ?thesis
    by (auto simp: persistedLevel_def loadCheckpoint_def defaultCheckpoint_def
             split: option.splits stored_text.splits)
qed

lemma loadCheckpoint_idem:
  "loadCheckpoint (snd (loadCheckpoint ls)) = (fst (loadCheckpoint ls), snd (loadCheckpoint ls))"
  by (auto simp: loadCheckpoint_def removeCheckpoint_def split: option.splits stored_text.splits)

lemma persistedLevel_loaded: "persistedLevel (snd (loadCheckpoint ls)) = persistedLevel ls"
  by (simp add: persistedLevel_def loadCheckpoint_idem)

lemma persistedLevel_stored:
  "persistedLevel (storeCheckpoint (makeCheckpointPayload (of_int (max 1 k)) now) ls)
     = of_int (max 1 k)"
proof -
  have "\<not> (of_int (max 1 k) :: real) < 1"
    by (simp add: max_def)
  then show ?thesis
    by (simp add: persistedLevel_def loadCheckpoint_def storeCheckpoint_def
                  makeCheckpointPayload_def max_def)
qed

lemma saveUnlockedLevelIfHigher_step:
  "saveUnlockedLevelIfHigher lvl now ls =
     (if max 1 (of_int \<lfloor>lvl\<rfloor> + 1) \<le> persistedLevel ls then snd (loadCheckpoint ls)
      else storeCheckpoint (makeCheckpointPayload (max 1 (of_int \<lfloor>lvl\<rfloor> + 1)) now)
             (snd (loadCheckpoint ls)))"
proof -
  have "persistedLevel ls \<noteq> 0"
    using persistedLevel_ge_1 [of ls] by simp
  then show ?thesis
    by (simp add: saveUnlockedLevelIfHigher_def persistedLevel_def Let_def split_beta)
qed

lemma persistedLevel_save:
  "persistedLevel (saveUnlockedLevelIfHigher lvl now ls)
     = max (persistedLevel ls) (max 1 (of_int \<lfloor>lvl\<rfloor> + 1))"
  unfolding saveUnlockedLevelIfHigher_step nextUnlocked_int
  by (simp add: persistedLevel_loaded persistedLevel_stored)

lemma persistedLevel_calls:
  "persistedLevel ls \<le> persistedLevel (saveUnlockedLevelIfHigher_calls cs ls)"
proof (induction cs arbitrary: ls)
  case Nil
  show ?case by simp
next
  case (Cons c cs)
  obtain lvl now where c: "c = (lvl, now)" by (cases c)
  have "persistedLevel ls \<le> persistedLevel (saveUnlockedLevelIfHigher lvl now ls)"
    by (simp add: persistedLevel_save)
  also have "\<dots> \<le> persistedLevel (saveUnlockedLevelIfHigher_calls cs (saveUnlockedLevelIfHigher lvl now ls))"
    by (rule Cons.IH)
  finally show ?case by (simp add: c)
qed

lemma loadCheckpoint_keeps:
  "(\<forall>t. checkpoint_item ls = Some t \<longrightarrow> \<not> discardedCheckpoint t) \<Longrightarrow> snd (loadCheckpoint ls) = ls"
  by (auto simp: loadCheckpoint_def discardedCheckpoint_def floor_real_less_one
           split: option.splits stored_text.splits)

lemma loadCheckpoint_discards:
  "checkpoint_item ls = Some t \<Longrightarrow> discardedCheckpoint t \<Longrightarrow>
     snd (loadCheckpoint ls) = ls\<lparr>checkpoint_item := None\<rparr>"
  by (auto simp: loadCheckpoint_def discardedCheckpoint_def floor_real_less_one removeCheckpoint_def
           split: option.splits stored_text.splits)

text \<open>
  C3 (as amended). Over every run of calls to \<open>saveUnlockedLevelIfHigher\<close>, with any
  finite arguments, the level that a load reports never decreases. One call writes
  \<open>max(1, floor(clearedLevelIndex) + 1)\<close> exactly when that value is strictly above the
  level a load reports; otherwise it leaves the storage as the load inside the call
  leaves it: unchanged when the record is absent, empty or valid, and without the
  record when the record is one that \<open>loadCheckpoint\<close> discards.
\<close>

theorem saveUnlockedLevelIfHigher_never_decreases:
  "persistedLevel ls \<le> persistedLevel (saveUnlockedLevelIfHigher_calls cs ls)
   \<and> (max 1 (of_int \<lfloor>lvl\<rfloor> + 1) > persistedLevel ls \<longrightarrow>
        checkpoint_item (saveUnlockedLevelIfHigher lvl now ls)
          = Some (Parsed \<lparr>stored_version = 2,
                           stored_level = Some (max 1 (of_int \<lfloor>lvl\<rfloor> + 1)),
                           stored_savedAt = now\<rparr>))
   \<and> (\<not> max 1 (of_int \<lfloor>lvl\<rfloor> + 1) > persistedLevel ls \<longrightarrow>
        saveUnlockedLevelIfHigher lvl now ls = snd (loadCheckpoint ls))
   \<and> ((\<forall>t. checkpoint_item ls = Some t \<longrightarrow> \<not> discardedCheckpoint t) \<longrightarrow>
        snd (loadCheckpoint ls) = ls)
   \<and> (\<forall>t. checkpoint_item ls = Some t \<and> discardedCheckpoint t \<longrightarrow>
        snd (loadCheckpoint ls) = ls\<lparr>checkpoint_item := None\<rparr>)"
proof -
  have written: "max 1 (of_int \<lfloor>lvl\<rfloor> + 1) > persistedLevel ls \<Longrightarrow>
        checkpoint_item (saveUnlockedLevelIfHigher lvl now ls)
          = Some (Parsed \<lparr>stored_version = 2,
                           stored_level = Some (max 1 (of_int \<lfloor>lvl\<rfloor> + 1)),
                           stored_savedAt = now\<rparr>)"
    unfolding saveUnlockedLevelIfHigher_step nextUnlocked_int
    by (simp add: storeCheckpoint_def makeCheckpointPayload_def max_def)
  have kept: "\<not> max 1 (of_int \<lfloor>lvl\<rfloor> + 1) > persistedLevel ls \<Longrightarrow>
        saveUnlockedLevelIfHigher lvl now ls = snd (loadCheckpoint ls)"
    by (simp only: saveUnlockedLevelIfHigher_step not_less if_True)
  show ?thesis
    using persistedLevel_calls [of ls cs] written kept loadCheckpoint_keeps [of ls]
      loadCheckpoint_discards [of ls]
    by blast
qed

theorem saveUnlockedLevelIfHigher_never_decreases_witness:
  "persistedLevel \<lparr>scores_item = None,
       checkpoint_item = Some (Parsed \<lparr>stored_version = 2, stored_level = Some 5, stored_savedAt = 0\<rparr>)\<rparr> = 5
   \<and> persistedLevel (saveUnlockedLevelIfHigher_calls [(7, 10), (2, 20)]
        \<lparr>scores_item = None,
         checkpoint_item = Some (Parsed \<lparr>stored_version = 2, stored_level = Some 5, stored_savedAt = 0\<rparr>)\<rparr>) \<ge> 5
   \<and> checkpoint_item (saveUnlockedLevelIfHigher 7 10
        \<lparr>scores_item = None,
         checkpoint_item = Some (Parsed \<lparr>stored_version = 2, stored_level = Some 5, stored_savedAt = 0\<rparr>)\<rparr>)
       = Some (Parsed \<lparr>stored_version = 2, stored_level = Some 8, stored_savedAt = 10\<rparr>)
   \<and> saveUnlockedLevelIfHigher 2 20
        \<lparr>scores_item = None,
         checkpoint_item = Some (Parsed \<lparr>stored_version = 2, stored_level = Some 5, stored_savedAt = 0\<rparr>)\<rparr>
       = \<lparr>scores_item = None,
          checkpoint_item = Some (Parsed \<lparr>stored_version = 2, stored_level = Some 5, stored_savedAt = 0\<rparr>)\<rparr>
   \<and> saveUnlockedLevelIfHigher 0 0 \<lparr>scores_item = None, checkpoint_item = Some Malformed\<rparr>
       = \<lparr>scores_item = None, checkpoint_item = None\<rparr>"
proof -
  let ?ls = "\<lparr>scores_item = None,
       checkpoint_item = Some (Parsed \<lparr>stored_version = 2, stored_level = Some 5, stored_savedAt = 0\<rparr>)\<rparr>"
  let ?bad = "\<lparr>scores_item = None, checkpoint_item = Some Malformed\<rparr>"
  have p: "persistedLevel ?ls = 5"
    by (simp add: persistedLevel_def loadCheckpoint_def)
  have q: "persistedLevel ?bad = 1"
    by (simp add: persistedLevel_def loadCheckpoint_def defaultCheckpoint_def)
  have d: "discardedCheckpoint Malformed" "\<not> discardedCheckpoint (Parsed \<lparr>stored_version = 2, stored_level = Some 5, stored_savedAt = 0\<rparr>)"
    by (simp_all add: discardedCheckpoint_def)
  show ?thesis
    using saveUnlockedLevelIfHigher_never_decreases [of ?ls "[(7, 10), (2, 20)]" 7 10]
      saveUnlockedLevelIfHigher_never_decreases [of ?ls "[]" 2 20]
      saveUnlockedLevelIfHigher_never_decreases [of ?bad "[]" 0 0]
    by (simp add: p q d)
qed

text \<open>
  C3 as stated fails where the stored record is corrupt: the value to write, 1, is not
  above the level 1 that a load reports, nothing is written, and yet the storage is no
  longer what it was, the corrupt record having been removed.
\<close>

theorem saveUnlockedLevelIfHigher_discards_counterexample:
  "\<not> max 1 (of_int \<lfloor>0::real\<rfloor> + 1)
        > persistedLevel \<lparr>scores_item = None, checkpoint_item = Some Malformed\<rparr>
   \<and> saveUnlockedLevelIfHigher 0 0 \<lparr>scores_item = None, checkpoint_item = Some Malformed\<rparr>
        \<noteq> \<lparr>scores_item = None, checkpoint_item = Some Malformed\<rparr>"
  by (simp add: saveUnlockedLevelIfHigher_def persistedLevel_def loadCheckpoint_def
                defaultCheckpoint_def removeCheckpoint_def)

section \<open>Properties of the input pipeline\<close>

lemma getCoverRect_640: "getCoverRect 640 480 1280 720 = \<lparr>drawW = 1280, drawH = 960, offsetX = 0, offsetY = -120\<rparr>"
  by (simp add: getCoverRect_def Let_def)

text \<open>
  C4 (as amended). For a 640 x 480 source frame and a 1280 x 720 surface the cover
  scale is the destination width over the source width, 1280 / 640 = 2, which is the
  larger of the two ratios; and the normalized point (0.5, 0.5) is mapped to the centre
  (640, 360) of the surface, with mirroring and without.
\<close>

theorem coverScale_640x480:
  "coverScale 640 480 1280 720 = 1280 / 640
   \<and> coverScale 640 480 1280 720 = max (1280 / 640) (720 / 480)
   \<and> mapLandmarkToStage_with mirrored (Some \<lparr>videoWidth = 640, videoHeight = 480\<rparr>)
        \<lparr>width = 1280, height = 720\<rparr> 0.5 0.5 = Some \<lparr>pt_x = 1280 / 2, pt_y = 720 / 2\<rparr>"
  by (simp add: coverScale_def mapLandmarkToStage_with_def getCoverRect_640 Let_def)

text \<open>
  C4 as stated fails: the cover scale is not the destination height over the source
  height, 720 / 480.
\<close>

theorem coverScale_640x480_counterexample:
  "coverScale 640 480 1280 720 \<noteq> 720 / 480"
  by (simp add: coverScale_def getCoverRect_640)

lemma coverScale_is_max:
  assumes "0 < vw" "0 < vh" "0 < sw" "0 < sh"
  shows "coverScale vw vh sw sh = max (sw / vw) (sh / vh)"
proof (cases "vw / vh > sw / sh")
  case True
  then have "sw * vh < sh * vw"
    using assms by (simp add: field_simps)
  then have "sw / vw < sh / vh"
    using assms by (simp add: field_simps)
  then show ?thesis
    using True assms by (simp add: coverScale_def getCoverRect_def Let_def max_def)
next
  case False
  then have "sh * vw \<le> sw * vh"
    using assms by (simp add: field_simps)
  then have "sh / vh \<le> sw / vw"
    using assms by (simp add: field_simps)
  then show ?thesis
    using False assms by (simp add: coverScale_def getCoverRect_def Let_def max_def)
qed

text \<open>
  C6. The source marks "no stable point yet" by \<open>lastStablePos.x = -100\<close>. With a
  stable point, \<open>applyDeadzone\<close> returns it and changes nothing when the new point is
  less than 2 pixels away (so when it is 1 pixel away), and adopts and returns the new
  point otherwise (so when it is 3 pixels away); without one it adopts the new point.
\<close>

theorem applyDeadzone_threshold:
  "(pt_x (lastStablePos s) \<noteq> -100 \<and> pointDist newPos (lastStablePos s) < 2 \<longrightarrow>
      applyDeadzone newPos s = (lastStablePos s, s))
   \<and> (pt_x (lastStablePos s) \<noteq> -100 \<and> pointDist newPos (lastStablePos s) = 1 \<longrightarrow>
      applyDeadzone newPos s = (lastStablePos s, s))
   \<and> (pt_x (lastStablePos s) \<noteq> -100 \<and> \<not> pointDist newPos (lastStablePos s) < 2 \<longrightarrow>
      applyDeadzone newPos s = (newPos, s\<lparr>lastStablePos := newPos\<rparr>))
   \<and> (pt_x (lastStablePos s) \<noteq> -100 \<and> pointDist newPos (lastStablePos s) = 3 \<longrightarrow>
      applyDeadzone newPos s = (newPos, s\<lparr>lastStablePos := newPos\<rparr>))
   \<and> (pt_x (lastStablePos s) = -100 \<longrightarrow>
      applyDeadzone newPos s = (newPos, s\<lparr>lastStablePos := newPos\<rparr>))"
  by (simp add: applyDeadzone_def pointDist_def Let_def)

lemma sqrt_9: "sqrt 9 = 3"
proof -
  have "sqrt (3\<^sup>2) = 3" by simp
  then show ?thesis by simp
qed

theorem applyDeadzone_threshold_witness:
  "applyDeadzone \<lparr>pt_x = 10, pt_y = 10\<rparr> (projr (initialGameState GameMode_LEVELS 1))
     = (\<lparr>pt_x = 10, pt_y = 10\<rparr>,
        (projr (initialGameState GameMode_LEVELS 1))\<lparr>lastStablePos := \<lparr>pt_x = 10, pt_y = 10\<rparr>\<rparr>)
   \<and> applyDeadzone \<lparr>pt_x = 11, pt_y = 10\<rparr>
        ((projr (initialGameState GameMode_LEVELS 1))\<lparr>lastStablePos := \<lparr>pt_x = 10, pt_y = 10\<rparr>\<rparr>)
     = (\<lparr>pt_x = 10, pt_y = 10\<rparr>,
        (projr (initialGameState GameMode_LEVELS 1))\<lparr>lastStablePos := \<lparr>pt_x = 10, pt_y = 10\<rparr>\<rparr>)
   \<and> applyDeadzone \<lparr>pt_x = 13, pt_y = 10\<rparr>
        ((projr (initialGameState GameMode_LEVELS 1))\<lparr>lastStablePos := \<lparr>pt_x = 10, pt_y = 10\<rparr>\<rparr>)
     = (\<lparr>pt_x = 13, pt_y = 10\<rparr>,
        (projr (initialGameState GameMode_LEVELS 1))\<lparr>lastStablePos := \<lparr>pt_x = 13, pt_y = 10\<rparr>\<rparr>)"
proof -
  let ?g = "projr (initialGameState GameMode_LEVELS 1)"
  let ?h = "?g\<lparr>lastStablePos := \<lparr>pt_x = 10, pt_y = 10\<rparr>\<rparr>"
  have g: "pt_x (lastStablePos ?g) = -100"
    by (simp add: initialGameState_def getStartingScore_def startLvlIndex_def)
  have d1: "pointDist \<lparr>pt_x = 11, pt_y = 10\<rparr> \<lparr>pt_x = 10, pt_y = 10\<rparr> = 1"
    and d3: "pointDist \<lparr>pt_x = 13, pt_y = 10\<rparr> \<lparr>pt_x = 10, pt_y = 10\<rparr> = 3"
    by (simp_all add: pointDist_def hypot_def sqrt_9)
  show ?thesis
    using applyDeadzone_threshold [of ?g "\<lparr>pt_x = 10, pt_y = 10\<rparr>"]
      applyDeadzone_threshold [of ?h "\<lparr>pt_x = 11, pt_y = 10\<rparr>"]
      applyDeadzone_threshold [of ?h "\<lparr>pt_x = 13, pt_y = 10\<rparr>"]
    by (simp add: g d1 d3)
qed

section \<open>Properties of the simulation\<close>

lemma createParticles_eq:
  "createParticles rnd x y t n s =
     s\<lparr>particles := particles s @ newParticles rnd x y t n (rngCalls s),
       rngCalls := rngCalls s + 4 * n\<rparr>"
  by (induction n arbitrary: s) (simp_all add: Let_def mkParticle_def)

lemma burst_fold_eq:
  "fold (\<lambda>r s'. createParticles rnd (bubble_x (heap s' r)) (bubble_y (heap s' r))
                     (btype (heap s' r)) 5 s') rs s =
     s\<lparr>particles := particles s @ burstParticles rnd (heap s) rs (rngCalls s),
       rngCalls := rngCalls s + 20 * length rs\<rparr>"
  by (induction rs arbitrary: s) (simp_all add: createParticles_eq)

lemma burstBubbles_eq:
  "burstBubbles rnd s =
     s\<lparr>particles := particles s @ burstParticles rnd (heap s) (bubbles s) (rngCalls s),
       rngCalls := rngCalls s + 20 * length (bubbles s)\<rparr>"
  by (simp add: burstBubbles_def burst_fold_eq)

lemma upto_nth: "k < 100 \<Longrightarrow> [1..100] ! k = 1 + int k"
  by (simp add: nth_upto)

lemma LEVELS_length: "length LEVELS = 100"
  by (simp add: LEVELS_def generateLevels_def)

lemma LEVELS_nth: "k < 100 \<Longrightarrow> target (LEVELS ! k) = levelTarget (int k + 1)"
  by (simp add: LEVELS_def generateLevels_def nth_upto add.commute)

lemma currentLevelConfig_target:
  "target (currentLevelConfig s) = levelTarget (int (min (levelIndex s) 99) + 1)"
  by (simp add: currentLevelConfig_def LEVELS_length LEVELS_nth)

lemmas handlePop_unfold =
  handlePop_def levelClearCheck_def restartLevel_def endGame_def showMessage_def showToast_def
  createParticles_eq burstBubbles_eq Let_def

lemma handlePop_heap:
  "heap (handlePop mode rnd now r s) = (heap s)(r := (heap s r)\<lparr>isPopped := True\<rparr>)"
  by (simp add: handlePop_unfold)

lemma handlePop_fingerPos: "fingerPos (handlePop mode rnd now r s) = fingerPos s"
  by (simp add: handlePop_unfold)

lemma handlePop_infinite_score:
  "score (handlePop GameMode_INFINITE rnd now r s) = score s + SCORING (btype (heap s r))"
  by (simp add: handlePop_unfold)

lemma handlePop_points:
  "btype (heap s r) \<noteq> BOMB \<Longrightarrow>
     score (handlePop mode rnd now r s) = score s + SCORING (btype (heap s r))"
  by (cases mode) (simp_all add: handlePop_unfold)

lemma handlePop_infinite_bomb:
  assumes "btype (heap s r) = BOMB"
  shows "status (handlePop GameMode_INFINITE rnd now r s) = GAME_OVER"
    and "gameOverReports (handlePop GameMode_INFINITE rnd now r s) = gameOverReports s @ [score s]"
    and "score (handlePop GameMode_INFINITE rnd now r s) = score s"
  using assms by (simp_all add: handlePop_unfold)

lemma handlePop_levels_status:
  "status (handlePop GameMode_LEVELS rnd now r s) = status s"
  by (simp add: handlePop_unfold)

lemma handlePop_levels_bomb_lives:
  assumes "btype (heap s r) = BOMB"
  shows "lives (handlePop GameMode_LEVELS rnd now r s) = (if lives s - 1 \<le> 0 then 3 else lives s - 1)"
  using assms by (simp add: handlePop_unfold)

lemma handlePop_levels_bomb_restart:
  assumes "btype (heap s r) = BOMB" and "lives s - 1 \<le> 0"
    and "levelScoreStart s < target (currentLevelConfig s)"
  shows "handlePop GameMode_LEVELS rnd now r s =
           s\<lparr>heap := (heap s)(r := (heap s r)\<lparr>isPopped := True\<rparr>),
             sounds := sounds s @ [PlayBomb],
             rngCalls := rngCalls s + 120,
             message := ''Level Failed! Restarting...'',
             messageTimer := 120,
             feedbackMessage := ''Level Failed! Restarting...'',
             screenShake := 30, bubbles := [], particles := [], lives := 3,
             score := levelScoreStart s, ui_lives := 3, ui_score := levelScoreStart s\<rparr>"
  using assms by (simp add: handlePop_unfold popSound_def currentLevelConfig_def)

lemma handlePop_levels_bomb_restart_past_table:
  assumes "btype (heap s r) = BOMB" and "lives s - 1 \<le> 0"
    and "target (currentLevelConfig s) \<le> levelScoreStart s"
  shows "levelIndex (handlePop GameMode_LEVELS rnd now r s) = levelIndex s + 1"
    and "lives (handlePop GameMode_LEVELS rnd now r s) = 3"
  using assms by (simp_all add: handlePop_unfold popSound_def currentLevelConfig_def)

lemma forEach_Cons:
  "gameLoop_forEach mode rnd now (r # rs) s =
     (if hitTest s r
      then (fst (gameLoop_forEach mode rnd now rs (handlePop mode rnd now r (moveBubble r s))),
            r # snd (gameLoop_forEach mode rnd now rs (handlePop mode rnd now r (moveBubble r s))))
      else gameLoop_forEach mode rnd now rs (moveBubble r s))"
  by (simp add: Let_def split_beta hitTest_def moveBubble_def)

declare gameLoop_forEach.simps(2) [simp del]

lemma moveBubble_simps:
  "fingerPos (moveBubble r s) = fingerPos s"
  "score (moveBubble r s) = score s"
  "isPopped (heap (moveBubble r s) q) = isPopped (heap s q)"
  "btype (heap (moveBubble r s) q) = btype (heap s q)"
  "q \<noteq> r \<Longrightarrow> heap (moveBubble r s) q = heap s q"
  by (simp_all add: moveBubble_def)

lemma popped_move_simps:
  "fingerPos (handlePop mode rnd now r (moveBubble r s)) = fingerPos s"
  "isPopped (heap (handlePop mode rnd now r (moveBubble r s)) q) = (q = r \<or> isPopped (heap s q))"
  "btype (heap (handlePop mode rnd now r (moveBubble r s)) q) = btype (heap s q)"
  "q \<noteq> r \<Longrightarrow> heap (handlePop mode rnd now r (moveBubble r s)) q = heap s q"
  by (simp_all add: handlePop_heap handlePop_fingerPos moveBubble_def)

lemma forEach_fingerPos:
  "fingerPos (fst (gameLoop_forEach mode rnd now rs s)) = fingerPos s"
  by (induction rs arbitrary: s)
     (simp_all add: forEach_Cons moveBubble_simps popped_move_simps)

lemma forEach_btype:
  "btype (heap (fst (gameLoop_forEach mode rnd now rs s)) q) = btype (heap s q)"
  by (induction rs arbitrary: s)
     (simp_all add: forEach_Cons moveBubble_simps popped_move_simps)

lemma forEach_untouched:
  "q \<notin> set rs \<Longrightarrow> heap (fst (gameLoop_forEach mode rnd now rs s)) q = heap s q"
  by (induction rs arbitrary: s)
     (simp_all add: forEach_Cons moveBubble_simps popped_move_simps)

lemma forEach_subset:
  "set (snd (gameLoop_forEach mode rnd now rs s)) \<subseteq> set rs"
  by (induction rs arbitrary: s) (auto simp: forEach_Cons)

lemma forEach_flags:
  "isPopped (heap (fst (gameLoop_forEach mode rnd now rs s)) q)
     = (isPopped (heap s q) \<or> q \<in> set (snd (gameLoop_forEach mode rnd now rs s)))"
  by (induction rs arbitrary: s)
     (auto simp: forEach_Cons moveBubble_simps popped_move_simps)

lemma forEach_unpopped_before:
  "q \<in> set (snd (gameLoop_forEach mode rnd now rs s)) \<Longrightarrow> \<not> isPopped (heap s q)"
proof (induction rs arbitrary: s)
  case Nil
  then show ?case by simp
next
  case (Cons r rs)
  show ?case
  proof (cases "hitTest s r")
    case True
    then have "q = r \<or> q \<in> set (snd (gameLoop_forEach mode rnd now rs (handlePop mode rnd now r (moveBubble r s))))"
      using Cons.prems by (simp add: forEach_Cons)
    then show ?thesis
    proof
      assume "q = r"
      then show ?thesis using True by (simp add: hitTest_def Let_def)
    next
      assume "q \<in> set (snd (gameLoop_forEach mode rnd now rs (handlePop mode rnd now r (moveBubble r s))))"
      then have "\<not> isPopped (heap (handlePop mode rnd now r (moveBubble r s)) q)"
        by (rule Cons.IH)
      then show ?thesis by (simp add: popped_move_simps)
    qed
  next
    case False
    then have "q \<in> set (snd (gameLoop_forEach mode rnd now rs (moveBubble r s)))"
      using Cons.prems by (simp add: forEach_Cons)
    then have "\<not> isPopped (heap (moveBubble r s) q)"
      by (rule Cons.IH)
    then show ?thesis by (simp add: moveBubble_simps)
  qed
qed

lemma forEach_distinct:
  "distinct (snd (gameLoop_forEach mode rnd now rs s))"
proof (induction rs arbitrary: s)
  case Nil
  show ?case by simp
next
  case (Cons r rs)
  have "r \<notin> set (snd (gameLoop_forEach mode rnd now rs (handlePop mode rnd now r (moveBubble r s))))"
    using forEach_unpopped_before [of r mode rnd now rs "handlePop mode rnd now r (moveBubble r s)"]
    by (auto simp: popped_move_simps)
  then show ?case
    using Cons.IH by (simp add: forEach_Cons)
qed

lemma hitTest_cong:
  "heap s' q = heap s q \<Longrightarrow> fingerPos s' = fingerPos s \<Longrightarrow> hitTest s' q = hitTest s q"
  by (simp add: hitTest_def)

lemma forEach_is_filter:
  "distinct rs \<Longrightarrow> snd (gameLoop_forEach mode rnd now rs s) = filter (hitTest s) rs"
proof (induction rs arbitrary: s)
  case Nil
  show ?case by simp
next
  case (Cons r rs)
  have r: "r \<notin> set rs" and d: "distinct rs"
    using Cons.prems by simp_all
  have same1: "filter (hitTest (moveBubble r s)) rs = filter (hitTest s) rs"
    using r by (intro filter_cong refl hitTest_cong) (auto simp: moveBubble_def)
  have same2: "filter (hitTest (handlePop mode rnd now r (moveBubble r s))) rs = filter (hitTest s) rs"
    using r by (intro filter_cong refl hitTest_cong) (auto simp: handlePop_heap handlePop_fingerPos moveBubble_def)
  show ?case
    by (simp add: forEach_Cons Cons.IH [OF d] same1 same2)
qed

lemma forEach_infinite_score:
  "score (fst (gameLoop_forEach GameMode_INFINITE rnd now rs s))
     = score s + sum_list (map (\<lambda>q. SCORING (btype (heap s q)))
                               (snd (gameLoop_forEach GameMode_INFINITE rnd now rs s)))"
proof (induction rs arbitrary: s)
  case Nil
  show ?case by simp
next
  case (Cons r rs)
  show ?case
    by (simp add: forEach_Cons Cons.IH moveBubble_simps popped_move_simps handlePop_infinite_score)
qed

lemma initialGameState_levels:
  assumes "2 \<le> L" "L \<le> 101"
  shows "initialGameState GameMode_LEVELS L =
           Inr \<lparr>status = PLAYING, score = target (LEVELS ! nat (L - 2)), lives = 3,
                levelIndex = nat (L - 1), levelScoreStart = target (LEVELS ! nat (L - 2)),
                lastSpawnTime = 0, bubbles = [], particles = [], inputType = MOUSE,
                fingerPos = \<lparr>pt_x = -100, pt_y = -100\<rparr>,
                lastStablePos = \<lparr>pt_x = -100, pt_y = -100\<rparr>,
                lastHandTime = 0, screenShake = 0, message = [], messageTimer = 0\<rparr>"
proof -
  have i: "startLvlIndex L = nat (L - 1)" "nat (L - 1) - Suc 0 = nat (L - 2)"
    using assms by (simp_all add: startLvlIndex_def)
  have "nat (L - 2) < length LEVELS" "nat (L - 1) \<noteq> 0"
    using assms by (simp_all add: LEVELS_length)
  then show ?thesis
    by (simp add: initialGameState_def getStartingScore_def i)
qed

text \<open>
  On the table: a level-mode session started at level \<open>L\<close> with \<open>2 \<le> L \<le> 101\<close> (the
  table has 100 entries) starts, and its score and its level-start score are both the
  target of the entry \<open>LEVELS[L - 2]\<close>; a session started at level 1 or below, and every
  endless-mode session, starts with score 0.
\<close>

lemma initial_score_is_previous_target:
  "(2 \<le> L \<and> L \<le> 101 \<longrightarrow>
      nat (L - 2) < length LEVELS
      \<and> (\<exists>g. initialGameState GameMode_LEVELS L = Inr g
              \<and> score g = target (LEVELS ! nat (L - 2))
              \<and> levelScoreStart g = target (LEVELS ! nat (L - 2))))
   \<and> (L \<le> 1 \<longrightarrow>
        (\<exists>g. initialGameState GameMode_LEVELS L = Inr g \<and> score g = 0 \<and> levelScoreStart g = 0))
   \<and> (\<exists>g. initialGameState GameMode_INFINITE L = Inr g \<and> score g = 0 \<and> levelScoreStart g = 0)"
proof -
  have a: "2 \<le> L \<and> L \<le> 101 \<longrightarrow>
      nat (L - 2) < length LEVELS
      \<and> (\<exists>g. initialGameState GameMode_LEVELS L = Inr g
              \<and> score g = target (LEVELS ! nat (L - 2))
              \<and> levelScoreStart g = target (LEVELS ! nat (L - 2)))"
  proof
    assume "2 \<le> L \<and> L \<le> 101"
    then have L: "2 \<le> L" "L \<le> 101"
      by simp_all
    then have "nat (L - 2) < length LEVELS"
      by (simp add: LEVELS_length)
    then show "nat (L - 2) < length LEVELS
      \<and> (\<exists>g. initialGameState GameMode_LEVELS L = Inr g
              \<and> score g = target (LEVELS ! nat (L - 2))
              \<and> levelScoreStart g = target (LEVELS ! nat (L - 2)))"
      using L by (simp add: initialGameState_levels)
  qed
  have b: "L \<le> 1 \<longrightarrow>
        (\<exists>g. initialGameState GameMode_LEVELS L = Inr g \<and> score g = 0 \<and> levelScoreStart g = 0)"
    by (simp add: initialGameState_def getStartingScore_def startLvlIndex_def)
  have c: "\<exists>g. initialGameState GameMode_INFINITE L = Inr g \<and> score g = 0 \<and> levelScoreStart g = 0"
    by (simp add: initialGameState_def getStartingScore_def)
  show ?thesis using a b c by blast
qed

text \<open>
  On every level of the table a session starts with its level-start score below the
  target of the level, which is the condition under which \<open>handlePop_levels_bomb_restart\<close>
  describes the restart.
\<close>

lemma levelTarget_increases: "1 \<le> i \<Longrightarrow> levelTarget i < levelTarget (i + 1)"
  by (simp add: levelTarget_def)

lemma initialGameState_below_target:
  assumes "1 \<le> L" "L \<le> 100" and "initialGameState GameMode_LEVELS L = Inr g"
  shows "levelScoreStart g < target (LEVELS ! min (levelIndex g) (length LEVELS - 1))"
proof (cases "L = 1")
  case True
  then show ?thesis
    using assms(3)
    by (auto simp: initialGameState_def getStartingScore_def startLvlIndex_def LEVELS_length
                   LEVELS_nth levelTarget_def)
next
  case False
  then have L: "2 \<le> L" "L \<le> 101" using assms by simp_all
  have i: "int (nat (L - 2)) + 1 = L - 1" "int (nat (L - 1)) + 1 = L"
    using L by simp_all
  have "levelTarget (L - 1) < levelTarget (L - 1 + 1)"
    using L by (intro levelTarget_increases) simp
  then show ?thesis
    using assms(2,3) L
    by (auto simp: initialGameState_levels [OF L] LEVELS_length LEVELS_nth i min_def)
qed

lemma exampleSession_fields:
  "bubbles (exampleSession mode L t refs) = refs"
  "fingerPos (exampleSession mode L t refs) = \<lparr>pt_x = 100, pt_y = 100\<rparr>"
  by (simp_all add: exampleSession_def)

lemma exampleSession_mounted:
  assumes "initialGameState mode L = Inr g"
  shows "score (exampleSession mode L t refs) = score g"
    and "lives (exampleSession mode L t refs) = lives g"
    and "levelIndex (exampleSession mode L t refs) = levelIndex g"
    and "levelScoreStart (exampleSession mode L t refs) = levelScoreStart g"
    and "status (exampleSession mode L t refs) = status g"
    and "gameOverReports (exampleSession mode L t refs) = []"
    and "heap (exampleSession mode L t refs) = (\<lambda>r. exampleBubble t)"
  using assms by (simp_all add: exampleSession_def mountGameCanvas_def)

text \<open>
  C2. In endless mode \<open>handlePop\<close> on a hazard bubble sets the status to
  \<open>GAME_OVER\<close> and reports to \<open>onGameOver\<close> the score held before the pop, which the
  pop leaves unchanged.
\<close>

theorem handlePop_endless_hazard:
  "btype (heap s r) = BOMB \<longrightarrow>
     status (handlePop GameMode_INFINITE rnd now r s) = GAME_OVER
     \<and> gameOverReports (handlePop GameMode_INFINITE rnd now r s) = gameOverReports s @ [score s]
     \<and> score (handlePop GameMode_INFINITE rnd now r s) = score s"
  using handlePop_infinite_bomb [of s r rnd now] by blast

theorem handlePop_endless_hazard_witness:
  "status (handlePop GameMode_INFINITE (\<lambda>k. 0) 0 0
             ((exampleSession GameMode_INFINITE 1 BOMB [0])\<lparr>score := 70\<rparr>)) = GAME_OVER
   \<and> gameOverReports (handlePop GameMode_INFINITE (\<lambda>k. 0) 0 0
             ((exampleSession GameMode_INFINITE 1 BOMB [0])\<lparr>score := 70\<rparr>)) = [70]"
proof -
  have g: "initialGameState GameMode_INFINITE 1 =
             Inr (projr (initialGameState GameMode_INFINITE 1))"
    by (simp add: initialGameState_def getStartingScore_def)
  show ?thesis
    using handlePop_endless_hazard
            [of "(exampleSession GameMode_INFINITE 1 BOMB [0])\<lparr>score := 70\<rparr>" 0 "\<lambda>k. 0" 0]
    by (simp add: exampleSession_fields exampleSession_mounted [OF g] exampleBubble_def)
qed

lemma handlePop_levels_bomb_fields:
  assumes "btype (heap s r) = BOMB"
  shows "score (handlePop GameMode_LEVELS rnd now r s)
           = (if lives s - 1 \<le> 0 then levelScoreStart s else score s)"
    and "levelIndex (handlePop GameMode_LEVELS rnd now r s)
           = (if target (currentLevelConfig s)
                   \<le> (if lives s - 1 \<le> 0 then levelScoreStart s else score s)
              then levelIndex s + 1 else levelIndex s)"
    and "levelScoreStart (handlePop GameMode_LEVELS rnd now r s)
           = (if target (currentLevelConfig s)
                   \<le> (if lives s - 1 \<le> 0 then levelScoreStart s else score s)
              then (if lives s - 1 \<le> 0 then levelScoreStart s else score s)
              else levelScoreStart s)"
  using assms by (simp_all add: handlePop_unfold currentLevelConfig_def)

text \<open>
  C1 at a session resumed at level 101, which is what the checkpoint holds once level
  100 is cleared: the level index is 100, past the table, and the level-start score is
  the last target. Three hazard pops bring the lives to zero and restart the level
  (the lives are 3 again), but the level index is then 103.
\<close>

theorem handlePop_restart_past_table:
  "levelIndex (exampleSession GameMode_LEVELS 101 BOMB [0, 2, 4]) = 100
   \<and> lives (exampleSession GameMode_LEVELS 101 BOMB [0, 2, 4]) = 3
   \<and> lives (handlePop GameMode_LEVELS (\<lambda>k. 0) 0 2
          (handlePop GameMode_LEVELS (\<lambda>k. 0) 0 0
            (exampleSession GameMode_LEVELS 101 BOMB [0, 2, 4]))) = 1
   \<and> levelIndex (handlePop GameMode_LEVELS (\<lambda>k. 0) 0 2
          (handlePop GameMode_LEVELS (\<lambda>k. 0) 0 0
            (exampleSession GameMode_LEVELS 101 BOMB [0, 2, 4]))) = 102
   \<and> lives (handlePop GameMode_LEVELS (\<lambda>k. 0) 0 4
        (handlePop GameMode_LEVELS (\<lambda>k. 0) 0 2
          (handlePop GameMode_LEVELS (\<lambda>k. 0) 0 0
            (exampleSession GameMode_LEVELS 101 BOMB [0, 2, 4])))) = 3
   \<and> levelIndex (handlePop GameMode_LEVELS (\<lambda>k. 0) 0 4
        (handlePop GameMode_LEVELS (\<lambda>k. 0) 0 2
          (handlePop GameMode_LEVELS (\<lambda>k. 0) 0 0
            (exampleSession GameMode_LEVELS 101 BOMB [0, 2, 4])))) = 103"
proof -
  let ?s0 = "exampleSession GameMode_LEVELS 101 BOMB [0, 2, 4]"
  let ?s1 = "handlePop GameMode_LEVELS (\<lambda>k. 0) 0 0 ?s0"
  let ?s2 = "handlePop GameMode_LEVELS (\<lambda>k. 0) 0 2 ?s1"
  let ?s3 = "handlePop GameMode_LEVELS (\<lambda>k. 0) 0 4 ?s2"
  have t: "target (LEVELS ! 99) = 33250"
    by (simp add: LEVELS_nth levelTarget_def)
  have g: "initialGameState GameMode_LEVELS 101 =
             Inr (projr (initialGameState GameMode_LEVELS 101))"
    by (simp add: initialGameState_levels)
  have s0: "levelIndex ?s0 = 100" "lives ?s0 = 3" "score ?s0 = 33250" "levelScoreStart ?s0 = 33250"
    by (simp_all add: exampleSession_mounted [OF g] initialGameState_levels t)
  have b: "btype (heap ?s0 q) = BOMB" "btype (heap ?s1 q) = BOMB" "btype (heap ?s2 q) = BOMB" for q
    by (simp_all add: handlePop_heap exampleSession_mounted [OF g] exampleBubble_def)
  have s1: "levelIndex ?s1 = 101" "lives ?s1 = 2" "score ?s1 = 33250" "levelScoreStart ?s1 = 33250"
    by (simp_all add: handlePop_levels_bomb_fields [OF b(1)] handlePop_levels_bomb_lives [OF b(1)]
                      currentLevelConfig_target levelTarget_def s0)
  have s2: "levelIndex ?s2 = 102" "lives ?s2 = 1" "score ?s2 = 33250" "levelScoreStart ?s2 = 33250"
    by (simp_all add: handlePop_levels_bomb_fields [OF b(2)] handlePop_levels_bomb_lives [OF b(2)]
                      currentLevelConfig_target levelTarget_def s1)
  have s3: "levelIndex ?s3 = 103" "lives ?s3 = 3"
    by (simp_all add: handlePop_levels_bomb_fields [OF b(3)] handlePop_levels_bomb_lives [OF b(3)]
                      currentLevelConfig_target levelTarget_def s2)
  show ?thesis
    by (simp add: s0 s2 s3)
qed

lemma handlePop_levels_bomb_storage:
  assumes "btype (heap s r) = BOMB"
    and "target (currentLevelConfig s) \<le> (if lives s - 1 \<le> 0 then levelScoreStart s else score s)"
  shows "storage (handlePop GameMode_LEVELS rnd now r s)
           = saveUnlockedLevelIfHigher (real (levelIndex s + 1)) now (storage s)"
  using assms by (auto simp: handlePop_unfold currentLevelConfig_def split: if_splits)

lemma getResumeLevel_persisted: "fst (getResumeLevel ls) = persistedLevel ls"
  using persistedLevel_ge_1 [of ls]
  by (simp add: getResumeLevel_def persistedLevel_def split_beta)

text \<open>
  C10 at level 102. In the session resumed at level 101 the first pop clears a level
  and saves 102 as the highest unlocked level; that is the level the menu then resumes
  at. For it \<open>getStartingScore\<close> reads \<open>LEVELS[100]\<close>, which the table does not have, and
  throws: no session starts, where C10 has it start with the score of the progress
  made.
\<close>

theorem initialGameState_throws_past_table:
  "fst (getResumeLevel (storage (exampleSession GameMode_LEVELS 101 BOMB [0, 2, 4]))) = 1
   \<and> fst (getResumeLevel (storage (handlePop GameMode_LEVELS (\<lambda>k. 0) 0 0
              (exampleSession GameMode_LEVELS 101 BOMB [0, 2, 4])))) = 102
   \<and> initialGameState GameMode_LEVELS 102 = Inl TypeError
   \<and> mountGameCanvas GameMode_LEVELS 102 (\<lambda>r. exampleBubble BOMB)
        (storage (handlePop GameMode_LEVELS (\<lambda>k. 0) 0 0
              (exampleSession GameMode_LEVELS 101 BOMB [0, 2, 4]))) = Inl TypeError"
proof -
  let ?s0 = "exampleSession GameMode_LEVELS 101 BOMB [0, 2, 4]"
  have t: "target (LEVELS ! 99) = 33250"
    by (simp add: LEVELS_nth levelTarget_def)
  have g: "initialGameState GameMode_LEVELS 101 =
             Inr (projr (initialGameState GameMode_LEVELS 101))"
    by (simp add: initialGameState_levels)
  have s0: "levelIndex ?s0 = 100" "lives ?s0 = 3" "score ?s0 = 33250"
    by (simp_all add: exampleSession_mounted [OF g] initialGameState_levels t)
  have st: "storage ?s0 = \<lparr>scores_item = None, checkpoint_item = None\<rparr>"
    by (subst exampleSession_def, subst mountGameCanvas_def, subst g) simp
  have b: "btype (heap ?s0 0) = BOMB"
    by (simp add: exampleSession_mounted [OF g] exampleBubble_def)
  have c: "target (currentLevelConfig ?s0) \<le> (if lives ?s0 - 1 \<le> 0 then levelScoreStart ?s0 else score ?s0)"
    by (simp add: currentLevelConfig_target levelTarget_def s0)
  have p0: "persistedLevel (storage ?s0) = 1"
    by (simp add: st persistedLevel_def loadCheckpoint_def defaultCheckpoint_def)
  have saved: "persistedLevel (storage (handlePop GameMode_LEVELS (\<lambda>k. 0) 0 0 ?s0)) = 102"
    by (simp add: handlePop_levels_bomb_storage [OF b c] persistedLevel_save p0 s0)
  have thrown: "initialGameState GameMode_LEVELS 102 = Inl TypeError"
    by (simp add: initialGameState_def getStartingScore_def startLvlIndex_def LEVELS_length)
  show ?thesis
    by (simp add: getResumeLevel_persisted p0 saved thrown mountGameCanvas_def)
qed

lemma gameLoop_bubbles_parts:
  "snd (gameLoop_bubbles mode rnd now s) = snd (gameLoop_forEach mode rnd now (bubbles s) s)"
  "heap (fst (gameLoop_bubbles mode rnd now s))
     = heap (fst (gameLoop_forEach mode rnd now (bubbles s) s))"
  "score (fst (gameLoop_bubbles mode rnd now s))
     = score (fst (gameLoop_forEach mode rnd now (bubbles s) s))"
  "set (bubbles (fst (gameLoop_bubbles mode rnd now s)))
     \<subseteq> {q. \<not> isPopped (heap (fst (gameLoop_forEach mode rnd now (bubbles s) s)) q)}"
  by (auto simp: gameLoop_bubbles_def split_beta Let_def)

text \<open>
  C7. In one bubble pass \<open>handlePop\<close> is called at most once for each bubble: the
  references it is called on are pairwise distinct, each is a bubble of the array that
  was not popped when the pass began and is popped after it, and a bubble whose flag
  is already set is never among them. When the array holds each bubble once, the
  bubbles popped are exactly those that pass the hit test, however many. In endless
  mode the score grows by the points of each popped bubble, counted once. No popped
  bubble is left in the array after the pass. In either mode one call of \<open>handlePop\<close>
  on a bubble that is no hazard adds the points of its type to the score, once.
\<close>

theorem gameLoop_pops_each_bubble_once:
  "distinct (snd (gameLoop_bubbles mode rnd now s))
   \<and> (\<forall>q \<in> set (snd (gameLoop_bubbles mode rnd now s)).
         q \<in> set (bubbles s) \<and> \<not> isPopped (heap s q)
         \<and> isPopped (heap (fst (gameLoop_bubbles mode rnd now s)) q))
   \<and> (\<forall>q. isPopped (heap s q) \<longrightarrow> q \<notin> set (snd (gameLoop_bubbles mode rnd now s)))
   \<and> (distinct (bubbles s) \<longrightarrow>
         snd (gameLoop_bubbles mode rnd now s) = filter (hitTest s) (bubbles s))
   \<and> (mode = GameMode_INFINITE \<longrightarrow>
         score (fst (gameLoop_bubbles mode rnd now s))
           = score s + sum_list (map (\<lambda>q. SCORING (btype (heap s q)))
                                     (snd (gameLoop_bubbles mode rnd now s))))
   \<and> (\<forall>q \<in> set (bubbles (fst (gameLoop_bubbles mode rnd now s))).
         \<not> isPopped (heap (fst (gameLoop_bubbles mode rnd now s)) q))
   \<and> (\<forall>r s'. btype (heap s' r) \<noteq> BOMB \<longrightarrow>
         score (handlePop mode rnd now r s') = score s' + SCORING (btype (heap s' r)))"
proof -
  let ?G = "gameLoop_forEach mode rnd now (bubbles s) s"
  have a: "distinct (snd ?G)"
    by (rule forEach_distinct)
  have b: "\<forall>q \<in> set (snd ?G). q \<in> set (bubbles s) \<and> \<not> isPopped (heap s q) \<and> isPopped (heap (fst ?G) q)"
    using forEach_subset [of mode rnd now "bubbles s" s]
      forEach_unpopped_before [of _ mode rnd now "bubbles s" s]
    by (auto simp: forEach_flags)
  have c: "\<forall>q. isPopped (heap s q) \<longrightarrow> q \<notin> set (snd ?G)"
    using forEach_unpopped_before [of _ mode rnd now "bubbles s" s] by blast
  have d: "distinct (bubbles s) \<longrightarrow> snd ?G = filter (hitTest s) (bubbles s)"
    by (simp add: forEach_is_filter)
  have e: "mode = GameMode_INFINITE \<longrightarrow>
         score (fst ?G) = score s + sum_list (map (\<lambda>q. SCORING (btype (heap s q))) (snd ?G))"
    using forEach_infinite_score [of rnd now "bubbles s" s] by simp
  have f: "\<forall>q \<in> set (bubbles (fst (gameLoop_bubbles mode rnd now s))).
         \<not> isPopped (heap (fst ?G) q)"
    using gameLoop_bubbles_parts(4) [of mode rnd now s] by blast
  have g: "\<forall>r s'. btype (heap s' r) \<noteq> BOMB \<longrightarrow>
         score (handlePop mode rnd now r s') = score s' + SCORING (btype (heap s' r))"
    by (simp add: handlePop_points)
  show ?thesis
    unfolding gameLoop_bubbles_parts(1,2,3)
    using a b c d e f g by blast
qed

theorem gameLoop_pops_each_bubble_once_witness:
  "snd (gameLoop_bubbles GameMode_INFINITE (\<lambda>k. 0) 0
          (exampleSession GameMode_INFINITE 1 NORMAL [0, 2])) = [0, 2]
   \<and> score (fst (gameLoop_bubbles GameMode_INFINITE (\<lambda>k. 0) 0
          (exampleSession GameMode_INFINITE 1 NORMAL [0, 2]))) = 20"
proof -
  let ?s = "exampleSession GameMode_INFINITE 1 NORMAL [0, 2]"
  let ?F = "gameLoop_bubbles GameMode_INFINITE (\<lambda>k. 0) 0 ?s"
  have g: "initialGameState GameMode_INFINITE 1 =
             Inr (projr (initialGameState GameMode_INFINITE 1))"
    by (simp add: initialGameState_def getStartingScore_def)
  have sc: "score ?s = 0"
    by (simp add: exampleSession_mounted [OF g] initialGameState_def getStartingScore_def)
  have h: "heap ?s = (\<lambda>r. exampleBubble NORMAL)"
    by (rule exampleSession_mounted [OF g])
  have hit: "hitTest ?s q" for q
    by (simp add: hitTest_def h exampleSession_fields exampleBubble_def hypot_def)
  have bs: "bubbles ?s = [0, 2]"
    by (simp add: exampleSession_fields)
  have d: "distinct (bubbles ?s)"
    by (simp add: bs)
  note inst = gameLoop_pops_each_bubble_once [of GameMode_INFINITE "\<lambda>k. 0" 0 ?s]
  have popped: "snd ?F = [0, 2]"
    using inst d by (simp add: bs hit)
  have total: "score (fst ?F) = 20"
    using inst by (simp add: popped sc h exampleBubble_def)
  show ?thesis
    using popped total by simp
qed

end
